theory Spec2Isabelle
  imports Main
begin

section \<open>Data model (app.py, lines 72-81)\<close>

text \<open>
  The pydantic models. \<open>ItemBase\<close> has a required \<open>name\<close> and an optional
  \<open>description\<close> whose declared default is \<open>None\<close>; \<open>ItemCreate\<close> adds nothing;
  \<open>Item\<close> extends \<open>ItemBase\<close> by the integer \<open>id\<close> (field \<open>id_field\<close> here, since
  \<open>id\<close> is the identity function of HOL). A row of the table, decoded with
  \<open>dict_row\<close>, has the keys of \<open>Item\<close> and is modelled by the same record.
\<close>

record ItemBase =
  name :: string
  description :: "string option"

type_synonym ItemCreate = ItemBase

record Item = ItemBase +
  id_field :: int

section \<open>Errors\<close>

text \<open>
  \<open>HTTPException\<close> is what the handlers raise themselves (status code and detail).
  \<open>RequestValidationError\<close> is the routing layer's rejection of a path parameter or a
  body that does not fit the declared types (status 422), \<open>ResponseValidationError\<close> its
  rejection of a returned value that does not fit the declared \<open>response_model\<close>
  (status 500). \<open>DataError\<close> and \<open>UniqueViolation\<close> are the database driver's
  exceptions for a value it cannot store and for a primary-key collision; no handler
  catches them, so they surface as status 500.
\<close>

datatype error =
    HTTPException nat string
  | RequestValidationError
  | ResponseValidationError
  | DataError
  | UniqueViolation

fun status_code :: "error \<Rightarrow> nat" where
  "status_code (HTTPException c d) = c"
| "status_code RequestValidationError = 422"
| "status_code ResponseValidationError = 500"
| "status_code DataError = 500"
| "status_code UniqueViolation = 500"

section \<open>The database behind the pool\<close>

text \<open>
  The five SQL statements of the handlers, with their bound parameters.
\<close>

datatype statement =
    SELECT_ALL
  | SELECT_BY_ID int
  | INSERT string "string option"
  | UPDATE string "string option" int
  | DELETE int

text \<open>
  What a handler does to the database, in order: checking a connection out of the pool
  (entering \<open>get_db\<close>), the call of \<open>cur.execute\<close> with a statement (logged also
  when the call raises), the explicit \<open>db.commit()\<close>, and giving the connection back
  (leaving \<open>get_db\<close>).
\<close>

datatype event = Acquire | Execute statement | Commit | Release

text \<open>
  The state of the database: the committed rows of table \<open>items\<close> in storage order, the
  sequence that generates \<open>id\<close>, and the log of events so far. The schema is not part of
  the repository; the specification gives it as
  \<open>items(id integer primary key generated, name text not null, description text null)\<close>,
  and the model follows that: the generated id is the next value of the sequence, the
  sequence stays within the range of the \<open>integer\<close> column (past it, generating an id
  raises and the sequence stays where it is), and an insertion whose id is already
  present violates the primary key.
\<close>

record database =
  items :: "Item list"
  items_id_seq :: int
  events :: "event list"

text \<open>
  A checked-out connection holds the view of its open transaction: the committed rows
  together with its own changes that are not committed yet.
\<close>

record connection =
  view :: "Item list"

record cursor =
  result :: "Item list"
  rowcount :: nat

definition log_event :: "event \<Rightarrow> database \<Rightarrow> database" where
  "log_event e d = d\<lparr>events := events d @ [e]\<rparr>"

definition get_db_enter :: "database \<Rightarrow> connection \<times> database" where
  "get_db_enter d = (\<lparr>view = items d\<rparr>, log_event Acquire d)"

definition get_db_exit :: "connection \<Rightarrow> database \<Rightarrow> database" where
  "get_db_exit c d = log_event Release d"

definition commit :: "connection \<Rightarrow> database \<Rightarrow> database" where
  "commit c d = log_event Commit (d\<lparr>items := view c\<rparr>)"

text \<open>
  A text parameter that contains the character NUL cannot be sent: the driver raises
  \<open>DataError\<close> while it binds the parameters, before the statement reaches the database.
  \<open>dumpable\<close> says that the two text parameters of INSERT and UPDATE can be sent.
\<close>

definition has_nul :: "string \<Rightarrow> bool" where
  "has_nul s \<longleftrightarrow> CHR 0x00 \<in> set s"

definition dumpable :: "string \<Rightarrow> string option \<Rightarrow> bool" where
  "dumpable n ds \<longleftrightarrow> \<not> has_nul n \<and> (case ds of None \<Rightarrow> True | Some s \<Rightarrow> \<not> has_nul s)"

text \<open>The range of the \<open>integer\<close> column (32 bits, signed).\<close>

definition int4 :: "int \<Rightarrow> bool" where
  "int4 i \<longleftrightarrow> - 2147483648 \<le> i \<and> i \<le> 2147483647"

text \<open>
  The statements on the view of the open transaction. SELECT returns the rows in
  storage order. INSERT appends the new row. UPDATE writes a new version of each
  matching row behind the rows it leaves alone, and returns the new versions. DELETE
  removes the matching rows and counts them.
\<close>

fun execute ::
  "statement \<Rightarrow> connection \<Rightarrow> database \<Rightarrow> (error + cursor \<times> connection) \<times> database" where
  "execute SELECT_ALL c d =
     (Inr (\<lparr>result = view c, rowcount = length (view c)\<rparr>, c),
      log_event (Execute SELECT_ALL) d)"
| "execute (SELECT_BY_ID i) c d =
     (let rs = filter (\<lambda>r. id_field r = i) (view c)
      in (Inr (\<lparr>result = rs, rowcount = length rs\<rparr>, c),
          log_event (Execute (SELECT_BY_ID i)) d))"
| "execute (INSERT n ds) c d =
     (let d1 = log_event (Execute (INSERT n ds)) d;
          i = items_id_seq d
      in if \<not> dumpable n ds then (Inl DataError, d1)
         else if \<not> int4 i then (Inl DataError, d1)
         else (let d' = d1\<lparr>items_id_seq := i + 1\<rparr>
               in if i \<in> id_field ` set (view c) then (Inl UniqueViolation, d')
                  else (let r = \<lparr>name = n, description = ds, id_field = i\<rparr>
                        in (Inr (\<lparr>result = [r], rowcount = 1\<rparr>,
                                 c\<lparr>view := view c @ [r]\<rparr>), d'))))"
| "execute (UPDATE n ds i) c d =
     (let d1 = log_event (Execute (UPDATE n ds i)) d
      in if \<not> dumpable n ds then (Inl DataError, d1)
         else (let rs = map (\<lambda>r. r\<lparr>name := n, description := ds\<rparr>)
                          (filter (\<lambda>r. id_field r = i) (view c));
                   v = filter (\<lambda>r. id_field r \<noteq> i) (view c) @ rs
               in (Inr (\<lparr>result = rs, rowcount = length rs\<rparr>, c\<lparr>view := v\<rparr>), d1)))"
| "execute (DELETE i) c d =
     (let gone = filter (\<lambda>r. id_field r = i) (view c)
      in (Inr (\<lparr>result = [], rowcount = length gone\<rparr>,
               c\<lparr>view := filter (\<lambda>r. id_field r \<noteq> i) (view c)\<rparr>),
          log_event (Execute (DELETE i)) d))"

definition fetchall :: "cursor \<Rightarrow> Item list" where
  "fetchall cur = result cur"

definition fetchone :: "cursor \<Rightarrow> Item option" where
  "fetchone cur = (case result cur of [] \<Rightarrow> None | r # _ \<Rightarrow> Some r)"

section \<open>The handlers (app.py, lines 88-153)\<close>

text \<open>
  Each handler takes the database and returns its response, or the exception it ends
  with, and the database afterwards. A statement that raises leaves the \<open>get_db\<close> block
  at once: the connection goes back to the pool and nothing is committed. \<open>create_item\<close>
  returns the fetched row unchecked; the declared \<open>response_model=Item\<close> rejects a
  missing row.
\<close>

definition read_items :: "database \<Rightarrow> (error + Item list) \<times> database" where
  "read_items d =
     (let (db, d1) = get_db_enter d
      in case execute SELECT_ALL db d1 of
           (Inl e, d2) \<Rightarrow> (Inl e, get_db_exit db d2)
         | (Inr (cur, db'), d2) \<Rightarrow>
             (let rows = fetchall cur
              in (Inr rows, get_db_exit db' d2)))"

definition read_item :: "int \<Rightarrow> database \<Rightarrow> (error + Item) \<times> database" where
  "read_item item_id d =
     (let (db, d1) = get_db_enter d
      in case execute (SELECT_BY_ID item_id) db d1 of
           (Inl e, d2) \<Rightarrow> (Inl e, get_db_exit db d2)
         | (Inr (cur, db'), d2) \<Rightarrow>
             (let row = fetchone cur;
                  d3 = get_db_exit db' d2
              in case row of
                   None \<Rightarrow> (Inl (HTTPException 404 ''Item not found''), d3)
                 | Some r \<Rightarrow> (Inr r, d3)))"

definition create_item :: "ItemCreate \<Rightarrow> database \<Rightarrow> (error + Item) \<times> database" where
  "create_item item d =
     (let (db, d1) = get_db_enter d
      in case execute (INSERT (name item) (description item)) db d1 of
           (Inl e, d2) \<Rightarrow> (Inl e, get_db_exit db d2)
         | (Inr (cur, db'), d2) \<Rightarrow>
             (let row = fetchone cur;
                  d3 = get_db_exit db' (commit db' d2)
              in case row of
                   None \<Rightarrow> (Inl ResponseValidationError, d3)
                 | Some r \<Rightarrow> (Inr r, d3)))"

definition update_item :: "int \<Rightarrow> ItemCreate \<Rightarrow> database \<Rightarrow> (error + Item) \<times> database" where
  "update_item item_id item d =
     (let (db, d1) = get_db_enter d
      in case execute (UPDATE (name item) (description item) item_id) db d1 of
           (Inl e, d2) \<Rightarrow> (Inl e, get_db_exit db d2)
         | (Inr (cur, db'), d2) \<Rightarrow>
             (let row = fetchone cur;
                  d3 = get_db_exit db' (commit db' d2)
              in case row of
                   None \<Rightarrow> (Inl (HTTPException 404 ''Item not found''), d3)
                 | Some r \<Rightarrow> (Inr r, d3)))"

definition delete_item ::
  "int \<Rightarrow> database \<Rightarrow> (error + (string \<times> string) list) \<times> database" where
  "delete_item item_id d =
     (let (db, d1) = get_db_enter d
      in case execute (DELETE item_id) db d1 of
           (Inl e, d2) \<Rightarrow> (Inl e, get_db_exit db d2)
         | (Inr (cur, db'), d2) \<Rightarrow>
             (let row_count = rowcount cur;
                  d3 = get_db_exit db' (commit db' d2)
              in if row_count = 0 then (Inl (HTTPException 404 ''Item not found''), d3)
                 else (Inr [(''message'', ''Item deleted successfully'')], d3)))"

section \<open>The request body (app.py, lines 73-78)\<close>


section \<open>Sequences of requests\<close>

datatype request =
    LIST
  | GET int
  | POST ItemCreate
  | PUT int ItemCreate
  | DEL int

datatype response =
    ItemList "Item list"
  | OneItem Item
  | Message "(string \<times> string) list"

fun dispatch :: "request \<Rightarrow> database \<Rightarrow> (error + response) \<times> database" where
  "dispatch LIST d = (let (r, d') = read_items d in (map_sum (\<lambda>e. e) ItemList r, d'))"
| "dispatch (GET i) d = (let (r, d') = read_item i d in (map_sum (\<lambda>e. e) OneItem r, d'))"
| "dispatch (POST item) d = (let (r, d') = create_item item d in (map_sum (\<lambda>e. e) OneItem r, d'))"
| "dispatch (PUT i item) d = (let (r, d') = update_item i item d in (map_sum (\<lambda>e. e) OneItem r, d'))"
| "dispatch (DEL i) d = (let (r, d') = delete_item i d in (map_sum (\<lambda>e. e) Message r, d'))"

text \<open>
  \<open>serve\<close> handles the requests one after the other and keeps what a client sees: each
  request with its response.
\<close>

fun serve ::
  "request list \<Rightarrow> database \<Rightarrow> (request \<times> (error + response)) list \<times> database" where
  "serve [] d = ([], d)"
| "serve (q # qs) d =
     (let (r, d') = dispatch q d;
          (h, d'') = serve qs d'
      in ((q, r) # h, d''))"

text \<open>
  The items that have been created and not deleted, read off what the client saw, in
  the words of the specification: a successful Create adds the item under the id it
  returned, a successful Update overwrites the fields of its id, a successful Delete
  removes its id; reads and failed requests change nothing.
\<close>

fun record_exchange ::
  "(int \<rightharpoonup> ItemBase) \<Rightarrow> request \<times> (error + response) \<Rightarrow> (int \<rightharpoonup> ItemBase)" where
  "record_exchange m (POST item, Inr (OneItem r)) = m(id_field r \<mapsto> item)"
| "record_exchange m (PUT i item, Inr (OneItem r)) = m(i \<mapsto> item)"
| "record_exchange m (DEL i, Inr (Message msg)) = m(i := None)"
| "record_exchange m other = m"

definition live_items :: "(request \<times> (error + response)) list \<Rightarrow> (int \<rightharpoonup> ItemBase)" where
  "live_items h = foldl record_exchange Map.empty h"

section \<open>Integrity of the table\<close>

definition ids :: "database \<Rightarrow> int set" where
  "ids d = id_field ` set (items d)"

text \<open>
  What the schema promises: \<open>id\<close> is a key, and every id in the table was generated by
  the sequence, so it lies below the sequence's next value.
\<close>

definition table_ok :: "database \<Rightarrow> bool" where
  "table_ok d \<longleftrightarrow>
     distinct (map id_field (items d)) \<and> (\<forall>r \<in> set (items d). id_field r < items_id_seq d)"

text \<open>The table as a map from id to the fields stored under it.\<close>

primrec table_of :: "Item list \<Rightarrow> (int \<rightharpoonup> ItemBase)" where
  "table_of [] = Map.empty"
| "table_of (r # rs) =
     (table_of rs)(id_field r \<mapsto> \<lparr>name = name r, description = description r\<rparr>)"

definition stored :: "database \<Rightarrow> (int \<rightharpoonup> ItemBase)" where
  "stored d = table_of (items d)"

section \<open>Credential resolution (app.py, lines 28-60)\<close>

text \<open>
  The environment is a map from variable names to texts. \<open>os.environ.get(k)\<close> is the
  lookup itself, \<open>os.environ.get(k, dflt)\<close> is \<open>environ_get\<close>. The test
  \<open>if os.environ.get("AWS_EXECUTION_ENV")\<close> is Python's truth value of the lookup:
  false for a missing variable and for the empty text.
\<close>

definition environ_get :: "(string \<rightharpoonup> string) \<Rightarrow> string \<Rightarrow> string \<Rightarrow> string" where
  "environ_get environ k dflt = (case environ k of None \<Rightarrow> dflt | Some v \<Rightarrow> v)"

definition truthy :: "string option \<Rightarrow> bool" where
  "truthy v = (case v of None \<Rightarrow> False | Some s \<Rightarrow> s \<noteq> [])"

datatype startup_error =
    SecretsManagerError
  | JSONDecodeError
  | KeyError string

text \<open>The arguments of \<open>AsyncConnectionPool\<close>.\<close>

record pool =
  conninfo :: string
  min_size :: nat
  max_size :: nat

text \<open>
  The secrets service and the JSON decoder are outside the repository and are
  parameters: \<open>get_secret_value region secret_name\<close> is the secret's text or a failure,
  \<open>json_loads\<close> decodes it to a dictionary or fails, and \<open>fmt\<close> is how an f-string
  renders a decoded value. The default port is the integer \<open>5432\<close>, rendered \<open>5432\<close>.
  Subscripting the dictionary with a missing key raises \<open>KeyError\<close>.
\<close>

definition get_db_pool ::
  "(string \<rightharpoonup> string) \<Rightarrow> (string \<Rightarrow> string option \<Rightarrow> string option) \<Rightarrow>
   (string \<Rightarrow> (string \<rightharpoonup> 'v) option) \<Rightarrow> ('v \<Rightarrow> string) \<Rightarrow> startup_error + pool" where
  "get_db_pool environ get_secret_value json_loads fmt =
     (if truthy (environ ''AWS_EXECUTION_ENV'') then
        (let secret_name = environ ''DB_SECRET_NAME'';
             region = environ_get environ ''AWS_REGION'' ''us-east-1''
         in case get_secret_value region secret_name of
              None \<Rightarrow> Inl SecretsManagerError
            | Some secret_string \<Rightarrow>
                (case json_loads secret_string of
                   None \<Rightarrow> Inl JSONDecodeError
                 | Some db_credentials \<Rightarrow>
                     (case db_credentials ''host'' of
                        None \<Rightarrow> Inl (KeyError ''host'')
                      | Some h \<Rightarrow>
                     (case db_credentials ''dbname'' of
                        None \<Rightarrow> Inl (KeyError ''dbname'')
                      | Some n \<Rightarrow>
                     (case db_credentials ''username'' of
                        None \<Rightarrow> Inl (KeyError ''username'')
                      | Some u \<Rightarrow>
                     (case db_credentials ''password'' of
                        None \<Rightarrow> Inl (KeyError ''password'')
                      | Some p \<Rightarrow>
                          Inr \<lparr>conninfo =
                                 ''host='' @ fmt h @ '' dbname='' @ fmt n @ '' user='' @ fmt u
                                 @ '' password='' @ fmt p @ '' port=''
                                 @ (case db_credentials ''port'' of
                                      None \<Rightarrow> ''5432''
                                    | Some q \<Rightarrow> fmt q),
                               min_size = 1, max_size = 10\<rparr>))))))
      else
        (let host = environ_get environ ''DB_HOST'' ''localhost'';
             database = environ_get environ ''DB_NAME'' ''postgres'';
             user = environ_get environ ''DB_USER'' ''postgres'';
             password = environ_get environ ''DB_PASSWORD'' ''postgres'';
             port = environ_get environ ''DB_PORT'' ''5432''
         in Inr \<lparr>conninfo =
                   ''host='' @ host @ '' dbname='' @ database @ '' user='' @ user
                   @ '' password='' @ password @ '' port='' @ port,
                 min_size = 1, max_size = 10\<rparr>))"

section \<open>A database for the examples\<close>

definition db_example :: database where
  "db_example =
     \<lparr>items = [\<lparr>name = ''Test Item'', description = Some ''This is a test'', id_field = 1\<rparr>,
               \<lparr>name = ''Other'', description = None, id_field = 2\<rparr>],
      items_id_seq = 3, events = []\<rparr>"

text \<open>An empty table, as before the first request.\<close>

definition db_empty :: database where
  "db_empty = \<lparr>items = [], items_id_seq = 1, events = []\<rparr>"

section \<open>Examples of the parameters\<close>

text \<open>
  Three environments (one inside the serverless platform, one local, one with the marker
  set to the empty text), a secrets service that knows one secret, and a decoder for it.
\<close>

definition environ_lambda :: "string \<rightharpoonup> string" where
  "environ_lambda =
     [''AWS_EXECUTION_ENV'' \<mapsto> ''AWS_Lambda_python3.9'', ''DB_SECRET_NAME'' \<mapsto> ''prod/db'']"

definition environ_local :: "string \<rightharpoonup> string" where
  "environ_local = [''DB_HOST'' \<mapsto> ''127.0.0.1'', ''DB_PORT'' \<mapsto> ''5433'']"

definition environ_empty_marker :: "string \<rightharpoonup> string" where
  "environ_empty_marker =
     [''AWS_EXECUTION_ENV'' \<mapsto> [], ''DB_SECRET_NAME'' \<mapsto> ''prod/db'']"

definition secrets_example :: "string \<Rightarrow> string option \<Rightarrow> string option" where
  "secrets_example region secret_id =
     (if region = ''us-east-1'' \<and> secret_id = Some ''prod/db'' then Some ''SECRET'' else None)"

definition json_example :: "string \<Rightarrow> (string \<rightharpoonup> string) option" where
  "json_example s =
     (if s = ''SECRET''
      then Some [''host'' \<mapsto> ''db.internal'', ''dbname'' \<mapsto> ''glog'',
                 ''username'' \<mapsto> ''app'', ''password'' \<mapsto> ''pw'']
      else None)"

definition fmt_example :: "string \<Rightarrow> string" where
  "fmt_example v = v"

section \<open>What each handler computes\<close>

lemmas handler_defs = read_items_def read_item_def create_item_def update_item_def
  delete_item_def get_db_enter_def get_db_exit_def commit_def log_event_def
  fetchone_def fetchall_def

lemma filter_none: "i \<notin> id_field ` set xs \<Longrightarrow> filter (\<lambda>r. id_field r = i) xs = []"
  by (induction xs) auto

lemma filter_some: "i \<in> id_field ` set xs \<Longrightarrow> filter (\<lambda>r. id_field r = i) xs \<noteq> []"
  by (induction xs) auto

lemma filter_others: "i \<notin> id_field ` set xs \<Longrightarrow> filter (\<lambda>r. id_field r \<noteq> i) xs = xs"
  by (induction xs) auto

lemma filter_deleted:
  "filter (\<lambda>r. id_field r = i) (filter (\<lambda>r. id_field r \<noteq> i) xs) = []"
  by (induction xs) auto

lemma read_items_eq:
  "read_items d =
     (Inr (items d), d\<lparr>events := events d @ [Acquire, Execute SELECT_ALL, Release]\<rparr>)"
  by (simp add: handler_defs)

lemma read_item_eq:
  "read_item i d =
     (case filter (\<lambda>r. id_field r = i) (items d) of
        [] \<Rightarrow> Inl (HTTPException 404 ''Item not found'')
      | r # _ \<Rightarrow> Inr r,
      d\<lparr>events := events d @ [Acquire, Execute (SELECT_BY_ID i), Release]\<rparr>)"
  by (simp add: handler_defs Let_def split: list.splits)

text \<open>
  \<open>create_item\<close> has three outcomes. When a text cannot be sent or the sequence is out
  of range, the call raises \<open>DataError\<close> and only the log changes. When the sequence's
  next value is already an id of the table, the INSERT raises \<open>UniqueViolation\<close>: the
  sequence has advanced and nothing is committed. Otherwise the new row is appended and
  committed. The log shows a commit only in the last case.
\<close>

lemma create_item_eq:
  "create_item item d =
     (if \<not> dumpable (name item) (description item) \<or> \<not> int4 (items_id_seq d)
      then (Inl DataError,
            d\<lparr>events := events d
                @ [Acquire, Execute (INSERT (name item) (description item)), Release]\<rparr>)
      else if items_id_seq d \<in> ids d
      then (Inl UniqueViolation,
            d\<lparr>items_id_seq := items_id_seq d + 1,
              events := events d
                @ [Acquire, Execute (INSERT (name item) (description item)), Release]\<rparr>)
      else (Inr \<lparr>name = name item, description = description item,
                 id_field = items_id_seq d\<rparr>,
            d\<lparr>items := items d
                @ [\<lparr>name = name item, description = description item,
                    id_field = items_id_seq d\<rparr>],
              items_id_seq := items_id_seq d + 1,
              events := events d
                @ [Acquire, Execute (INSERT (name item) (description item)), Commit,
                   Release]\<rparr>))"
  by (simp add: handler_defs Let_def ids_def)

text \<open>
  \<open>update_item\<close> raises \<open>DataError\<close> without a commit when a text cannot be sent.
  Otherwise it commits, whether or not a row matched.
\<close>

lemma update_item_eq:
  "update_item i item d =
     (if \<not> dumpable (name item) (description item)
      then (Inl DataError,
            d\<lparr>events := events d
                @ [Acquire, Execute (UPDATE (name item) (description item) i), Release]\<rparr>)
      else (case filter (\<lambda>r. id_field r = i) (items d) of
              [] \<Rightarrow> Inl (HTTPException 404 ''Item not found'')
            | r # _ \<Rightarrow> Inr (r\<lparr>name := name item, description := description item\<rparr>),
            d\<lparr>items := filter (\<lambda>r. id_field r \<noteq> i) (items d)
                @ map (\<lambda>r. r\<lparr>name := name item, description := description item\<rparr>)
                    (filter (\<lambda>r. id_field r = i) (items d)),
              events := events d
                @ [Acquire, Execute (UPDATE (name item) (description item) i), Commit,
                   Release]\<rparr>))"
  by (simp add: handler_defs Let_def split: list.splits)

lemma delete_item_eq:
  "delete_item i d =
     (if i \<in> ids d then Inr [(''message'', ''Item deleted successfully'')]
      else Inl (HTTPException 404 ''Item not found''),
      d\<lparr>items := filter (\<lambda>r. id_field r \<noteq> i) (items d),
        events := events d @ [Acquire, Execute (DELETE i), Commit, Release]\<rparr>)"
  by (simp add: handler_defs Let_def ids_def filter_none filter_some)

lemma ids_example: "ids db_example = {1, 2}"
  by (auto simp add: ids_def db_example_def)



section \<open>Create, Get, Update, Delete\<close>




text \<open>
  Claim C2. Get on an id that no row of the table has fails with NotFound: the
  exception carries status 404 and the detail \<open>Item not found\<close>.
\<close>

theorem read_item_not_found:
  assumes "item_id \<notin> ids d"
  shows "fst (read_item item_id d) = Inl (HTTPException 404 ''Item not found'') \<and>
         status_code (HTTPException 404 ''Item not found'') = 404"
  using assms by (simp add: read_item_eq ids_def filter_none)

theorem read_item_not_found_witness:
  "99999 \<notin> ids db_example \<and>
   fst (read_item 99999 db_example) = Inl (HTTPException 404 ''Item not found'')"
proof -
  have absent: "99999 \<notin> ids db_example" by (simp add: ids_example)
  from read_item_not_found [OF absent] show ?thesis using absent by simp
qed




text \<open>
  Claim C4. Delete on an id that no row has fails with NotFound (status 404). Delete on
  an id that a row has succeeds with the body \<open>{"message": "Item deleted successfully"}\<close>;
  afterwards Get on that id fails with NotFound, and so does a second Delete.
\<close>

theorem delete_item_cases:
  "(item_id \<notin> ids d \<longrightarrow>
      fst (delete_item item_id d) = Inl (HTTPException 404 ''Item not found'')) \<and>
   (item_id \<in> ids d \<longrightarrow>
      fst (delete_item item_id d) = Inr [(''message'', ''Item deleted successfully'')] \<and>
      fst (read_item item_id (snd (delete_item item_id d)))
        = Inl (HTTPException 404 ''Item not found'') \<and>
      fst (delete_item item_id (snd (delete_item item_id d)))
        = Inl (HTTPException 404 ''Item not found''))"
  by (auto simp add: delete_item_eq read_item_eq ids_def filter_deleted)

theorem delete_item_cases_witness:
  "1 \<in> ids db_example \<and> 7 \<notin> ids db_example \<and>
   fst (delete_item 7 db_example) = Inl (HTTPException 404 ''Item not found'') \<and>
   fst (delete_item 1 db_example) = Inr [(''message'', ''Item deleted successfully'')] \<and>
   fst (read_item 1 (snd (delete_item 1 db_example)))
     = Inl (HTTPException 404 ''Item not found'') \<and>
   fst (delete_item 1 (snd (delete_item 1 db_example)))
     = Inl (HTTPException 404 ''Item not found'')"
proof -
  have present: "1 \<in> ids db_example" and absent: "7 \<notin> ids db_example"
    by (simp_all add: ids_example)
  from delete_item_cases [of 7 db_example] delete_item_cases [of 1 db_example]
  show ?thesis using present absent by simp
qed

text \<open>
  Claim C10. Delete on an id that no row has still commits before it raises NotFound:
  the log gains the checkout, the DELETE, the commit and the return of the connection,
  and nothing else of the database changes, so the table is the table before.
\<close>

theorem delete_missing_commits:
  assumes "item_id \<notin> ids d"
  shows "delete_item item_id d =
           (Inl (HTTPException 404 ''Item not found''),
            d\<lparr>events := events d @ [Acquire, Execute (DELETE item_id), Commit, Release]\<rparr>)"
  using assms by (simp add: delete_item_eq ids_def filter_others)

theorem delete_missing_commits_witness:
  "7 \<notin> ids db_example \<and>
   delete_item 7 db_example =
     (Inl (HTTPException 404 ''Item not found''),
      db_example\<lparr>events := [Acquire, Execute (DELETE 7), Commit, Release]\<rparr>)"
proof -
  have absent: "7 \<notin> ids db_example" by (simp add: ids_example)
  have "events db_example = []" by (simp add: db_example_def)
  with delete_missing_commits [OF absent] show ?thesis using absent by simp
qed

section \<open>The table over a sequence of requests\<close>

text \<open>
  Every handler keeps the integrity of the table, so it holds in every state reached
  from an empty table; there the sequence's next value is never an id of the table, and
  Create does not raise \<open>UniqueViolation\<close>.
\<close>

lemma table_ok_fresh: "table_ok d \<Longrightarrow> items_id_seq d \<notin> ids d"
  by (auto simp add: table_ok_def ids_def)

lemma table_ok_read_items: "table_ok d \<Longrightarrow> table_ok (snd (read_items d))"
  by (simp add: read_items_eq table_ok_def)

lemma table_ok_read_item: "table_ok d \<Longrightarrow> table_ok (snd (read_item i d))"
  by (simp add: read_item_eq table_ok_def)

lemma table_ok_create_item: "table_ok d \<Longrightarrow> table_ok (snd (create_item item d))"
  by (auto simp add: create_item_eq table_ok_def ids_def)

lemma table_ok_update_item: "table_ok d \<Longrightarrow> table_ok (snd (update_item i item d))"
  by (auto simp add: update_item_eq table_ok_def distinct_map_filter comp_def)

lemma table_ok_delete_item: "table_ok d \<Longrightarrow> table_ok (snd (delete_item i d))"
  by (auto simp add: delete_item_eq table_ok_def distinct_map_filter)

lemma table_ok_dispatch: "table_ok d \<Longrightarrow> table_ok (snd (dispatch q d))"
  by (cases q) (simp_all add: split_def Let_def table_ok_read_items table_ok_read_item 
     table_ok_create_item table_ok_update_item table_ok_delete_item)

lemma ItemBase_eta: "\<lparr>name = name (b::ItemBase), description = description b\<rparr> = b"
  by (cases b) simp

lemma ItemBase_eq_iff:
  "(\<lparr>name = n, description = ds\<rparr> = (b::ItemBase)) = (name b = n \<and> description b = ds)"
  by (cases b) auto

lemma Item_eq_iff:
  "(\<lparr>name = n, description = ds, id_field = i\<rparr> = (a::Item)) =
   (name a = n \<and> description a = ds \<and> id_field a = i)"
  by (cases a) auto

lemma table_of_None: "(table_of xs i = None) = (i \<notin> id_field ` set xs)"
  by (induction xs) auto

lemma table_of_snoc:
  "id_field r \<notin> id_field ` set xs \<Longrightarrow>
   table_of (xs @ [r]) = (table_of xs)(id_field r \<mapsto> \<lparr>name = name r, description = description r\<rparr>)"
  by (induction xs) (auto simp add: fun_upd_twist)

lemma table_of_append:
  "table_of (xs @ ys) k = (case table_of xs k of None \<Rightarrow> table_of ys k | Some v \<Rightarrow> Some v)"
  by (induction xs) auto

lemma table_of_new_versions:
  "table_of (map (\<lambda>r. r\<lparr>name := n, description := ds\<rparr>) (filter (\<lambda>r. id_field r = i) xs)) =
   (if i \<in> id_field ` set xs then [i \<mapsto> \<lparr>name = n, description = ds\<rparr>] else Map.empty)"
  by (induction xs) auto

lemma table_of_del:
  "table_of (filter (\<lambda>r. id_field r \<noteq> i) xs) = (table_of xs)(i := None)"
  by (induction xs) (auto simp add: fun_upd_twist)

lemma table_of_upd:
  "table_of (filter (\<lambda>r. id_field r \<noteq> i) xs
      @ map (\<lambda>r. r\<lparr>name := n, description := ds\<rparr>) (filter (\<lambda>r. id_field r = i) xs)) =
   (if i \<in> id_field ` set xs then (table_of xs)(i \<mapsto> \<lparr>name = n, description = ds\<rparr>)
    else table_of xs)"
proof (rule ext)
  fix k
  let ?A = "filter (\<lambda>r. id_field r \<noteq> i) xs"
  let ?B = "map (\<lambda>r. r\<lparr>name := n, description := ds\<rparr>) (filter (\<lambda>r. id_field r = i) xs)"
  have app: "table_of (?A @ ?B) k =
      (case table_of ?A k of None \<Rightarrow> table_of ?B k | Some v \<Rightarrow> Some v)"
    by (rule table_of_append)
  have absent: "i \<notin> id_field ` set xs \<Longrightarrow> table_of xs i = None"
    by (simp add: table_of_None)
  show "table_of (?A @ ?B) k =
   (if i \<in> id_field ` set xs then (table_of xs)(i \<mapsto> \<lparr>name = n, description = ds\<rparr>)
    else table_of xs) k"
  proof (cases "k = i")
    case True
    with app absent show ?thesis
      by (simp add: table_of_del table_of_new_versions)
  next
    case False
    with app show ?thesis
      by (simp add: table_of_del table_of_new_versions split: option.splits)
  qed
qed

lemma table_of_Some:
  "distinct (map id_field xs) \<Longrightarrow>
   (table_of xs i = Some b) =
   (\<lparr>name = name b, description = description b, id_field = i\<rparr> \<in> set xs)"
  by (induction xs) (auto simp add: table_of_None [symmetric] Item_eq_iff ItemBase_eq_iff)

lemma stored_read_items: "stored (snd (read_items d)) = stored d"
  by (simp add: read_items_eq stored_def)

lemma stored_read_item: "stored (snd (read_item i d)) = stored d"
  by (simp add: read_item_eq stored_def)

lemma stored_create_item:
  "items_id_seq d \<notin> ids d \<Longrightarrow>
   stored (snd (create_item item d)) =
     (if dumpable (name item) (description item) \<and> int4 (items_id_seq d)
      then (stored d)(items_id_seq d \<mapsto> item) else stored d)"
  by (simp add: create_item_eq stored_def ids_def table_of_snoc ItemBase_eta)

lemma stored_update_item:
  "stored (snd (update_item i item d)) =
     (if dumpable (name item) (description item) \<and> i \<in> ids d
      then (stored d)(i \<mapsto> item) else stored d)"
  by (simp add: update_item_eq stored_def ids_def table_of_upd ItemBase_eta)

lemma stored_delete_item:
  "stored (snd (delete_item i d)) = (stored d)(i := None)"
  by (simp add: delete_item_eq stored_def table_of_del)

lemma stored_dispatch:
  "table_ok d \<Longrightarrow> stored (snd (dispatch q d)) = record_exchange (stored d) (q, fst (dispatch q d))"
proof (cases q)
  case LIST
  then show ?thesis by (simp add: split_def Let_def read_items_eq stored_def)
next
  case (GET i)
  then show ?thesis 
    by (simp add: split_def Let_def stored_read_item)
next
  case (POST item)
  assume "table_ok d"
  then have fresh: "items_id_seq d \<notin> ids d" by (rule table_ok_fresh)
  show ?thesis
  proof (cases "dumpable (name item) (description item) \<and> int4 (items_id_seq d)")
    case True
    with fresh have "fst (create_item item d)
        = Inr \<lparr>name = name item, description = description item, id_field = items_id_seq d\<rparr>"
      by (simp add: create_item_eq)
    with POST True fresh show ?thesis
      by (simp add: split_def Let_def stored_create_item)
  next
    case False
    then have "fst (create_item item d) = Inl DataError"
      by (auto simp add: create_item_eq)
    with POST False fresh show ?thesis
      by (auto simp add: split_def Let_def stored_create_item)
  qed
next
  case (PUT i item)
  show ?thesis
  proof (cases "dumpable (name item) (description item)")
    case False
    then have "fst (update_item i item d) = Inl DataError"
      by (simp add: update_item_eq)
    with PUT False show ?thesis
      by (simp add: split_def Let_def stored_update_item)
  next
    case ok: True
    show ?thesis
    proof (cases "i \<in> ids d")
      case True
      then have "filter (\<lambda>r. id_field r = i) (items d) \<noteq> []"
        by (simp add: ids_def filter_some)
      then obtain r rs where "filter (\<lambda>r. id_field r = i) (items d) = r # rs"
        by (cases "filter (\<lambda>r. id_field r = i) (items d)") auto
      with ok have "fst (update_item i item d)
                   = Inr (r\<lparr>name := name item, description := description item\<rparr>)"
        by (simp add: update_item_eq)
      with PUT True ok show ?thesis
        by (simp add: split_def Let_def stored_update_item)
    next
      case False
      with ok have "fst (update_item i item d) = Inl (HTTPException 404 ''Item not found'')"
        by (simp add: update_item_eq ids_def filter_none)
      with PUT False show ?thesis
        by (simp add: split_def Let_def stored_update_item)
    qed
  qed
next
  case (DEL i)
  show ?thesis
  proof (cases "i \<in> ids d")
    case True
    with DEL show ?thesis
      by (simp add: split_def Let_def stored_delete_item) (simp add: delete_item_eq)
  next
    case False
    then have "stored d i = None" by (simp add: stored_def ids_def table_of_None)
    then have "(stored d)(i := None) = stored d" by (rule fun_upd_idem)
    with DEL False show ?thesis
      by (simp add: split_def Let_def stored_delete_item) (simp add: delete_item_eq)
  qed
qed

lemma serve_invariant:
  "table_ok d \<Longrightarrow> serve qs d = (h, d') \<Longrightarrow>
   table_ok d' \<and> stored d' = foldl record_exchange (stored d) h"
proof (induction qs arbitrary: d h)
  case Nil
  then show ?case by simp
next
  case (Cons q qs)
  obtain r d1 where step: "dispatch q d = (r, d1)" by (cases "dispatch q d")
  obtain h1 where rest: "serve qs d1 = (h1, d')" and h: "h = (q, r) # h1" 
    using Cons.prems(2) step by (cases "serve qs d1") simp
  from table_ok_dispatch [OF Cons.prems(1), of q] step have ok1: "table_ok d1" by simp
  from stored_dispatch [OF Cons.prems(1), of q] step
  have st1: "stored d1 = record_exchange (stored d) (q, r)" by simp
  from Cons.IH [OF ok1 rest] have "table_ok d'" and "stored d' = foldl record_exchange (stored d1) h1"
    by simp_all
  with h st1 show ?case by simp
qed

text \<open>
  Claim C5. After any sequence of requests on a table that was empty, List returns
  exactly the items created and not deleted, as the client saw them: no id occurs
  twice among the returned rows, and a row is returned for an id with given fields
  exactly when that id is live with those fields. On an empty table List returns the
  empty sequence. The order of the rows is left open.
\<close>

theorem read_items_live:
  assumes "items d0 = []" and "serve qs d0 = (h, d)"
  shows "\<exists>rows d'. read_items d = (Inr rows, d') \<and> distinct (map id_field rows) \<and>
           (\<forall>i b. (live_items h i = Some b) =
                  (\<lparr>name = name b, description = description b, id_field = i\<rparr> \<in> set rows)) \<and>
           (items d = [] \<longrightarrow> rows = [])"
proof -
  from assms(1) have ok0: "table_ok d0" and st0: "stored d0 = Map.empty"
    by (simp_all add: table_ok_def stored_def)
  from serve_invariant [OF ok0 assms(2)] st0
  have ok: "table_ok d" and st: "stored d = live_items h"
    by (simp_all add: live_items_def)
  from ok have dist: "distinct (map id_field (items d))" by (simp add: table_ok_def)
  from table_of_Some [OF dist] st
  have "\<forall>i b. (live_items h i = Some b) =
                  (\<lparr>name = name b, description = description b, id_field = i\<rparr> \<in> set (items d))"
    by (simp add: stored_def)
  with dist show ?thesis by (simp add: read_items_eq)
qed

theorem read_items_live_witness:
  "items db_empty = [] \<and>
   fst (read_items (snd (serve [POST \<lparr>name = ''a'', description = None\<rparr>,
                                POST \<lparr>name = ''b'', description = Some ''second''\<rparr>,
                                DEL 1, DEL 1] db_empty)))
     = Inr [\<lparr>name = ''b'', description = Some ''second'', id_field = 2\<rparr>] \<and>
   live_items (fst (serve [POST \<lparr>name = ''a'', description = None\<rparr>,
                                POST \<lparr>name = ''b'', description = Some ''second''\<rparr>,
                                DEL 1, DEL 1] db_empty)) 2
     = Some \<lparr>name = ''b'', description = Some ''second''\<rparr> \<and>
   (\<exists>rows d'. read_items (snd (serve [POST \<lparr>name = ''a'', description = None\<rparr>,
                                POST \<lparr>name = ''b'', description = Some ''second''\<rparr>,
                                DEL 1, DEL 1] db_empty)) = (Inr rows, d') \<and>
       distinct (map id_field rows) \<and>
       (\<forall>i b. (live_items (fst (serve [POST \<lparr>name = ''a'', description = None\<rparr>,
                                POST \<lparr>name = ''b'', description = Some ''second''\<rparr>,
                                DEL 1, DEL 1] db_empty)) i = Some b) =
              (\<lparr>name = name b, description = description b, id_field = i\<rparr> \<in> set rows)))"
proof -
  let ?qs = "[POST \<lparr>name = ''a'', description = None\<rparr>,
              POST \<lparr>name = ''b'', description = Some ''second''\<rparr>, DEL 1, DEL 1]"
  have empty: "items db_empty = []" by (simp add: db_empty_def)
  have run: "serve ?qs db_empty = (fst (serve ?qs db_empty), snd (serve ?qs db_empty))"
    by simp
  have ev: "serve ?qs db_empty =
     ([(POST \<lparr>name = ''a'', description = None\<rparr>, Inr (OneItem \<lparr>name = ''a'', description = None, id_field = 1\<rparr>)),
       (POST \<lparr>name = ''b'', description = Some ''second''\<rparr>, Inr (OneItem \<lparr>name = ''b'', description = Some ''second'', id_field = 2\<rparr>)),
       (DEL 1, Inr (Message [(''message'', ''Item deleted successfully'')])),
       (DEL 1, Inl (HTTPException 404 ''Item not found''))],
      \<lparr>items = [\<lparr>name = ''b'', description = Some ''second'', id_field = 2\<rparr>], items_id_seq = 3,
        events = [Acquire, Execute (INSERT ''a'' None), Commit, Release,
                  Acquire, Execute (INSERT ''b'' (Some ''second'')), Commit, Release,
                  Acquire, Execute (DELETE 1), Commit, Release,
                  Acquire, Execute (DELETE 1), Commit, Release]\<rparr>)"
    by (simp add: db_empty_def create_item_eq delete_item_eq ids_def dumpable_def has_nul_def
          int4_def del: set_filter)
  have rows: "fst (read_items (snd (serve ?qs db_empty)))
     = Inr [\<lparr>name = ''b'', description = Some ''second'', id_field = 2\<rparr>]"
    unfolding ev by (simp add: read_items_eq)
  have live: "live_items (fst (serve ?qs db_empty)) 2 = Some \<lparr>name = ''b'', description = Some ''second''\<rparr>"
    unfolding ev by (simp add: live_items_def)
  from read_items_live [OF empty run] empty rows live show ?thesis by blast
qed

section \<open>Commits\<close>




section \<open>The default of description\<close>





section \<open>Resolved credentials\<close>

text \<open>
  Claim C7, as stated, takes the secret whenever the marker is set. The handler tests
  the truth value of the marker: with \<open>AWS_EXECUTION_ENV\<close> set to the empty text the
  pool is configured from the \<open>DB_*\<close> variables and their defaults, although the secret
  could be fetched.
\<close>

theorem get_db_pool_resolution_counterexample:
  "environ_empty_marker ''AWS_EXECUTION_ENV'' \<noteq> None \<and>
   secrets_example ''us-east-1'' (environ_empty_marker ''DB_SECRET_NAME'') = Some ''SECRET'' \<and>
   get_db_pool environ_empty_marker secrets_example json_example fmt_example =
     Inr \<lparr>conninfo = ''host=localhost dbname=postgres user=postgres password=postgres port=5432'',
          min_size = 1, max_size = 10\<rparr> \<and>
   get_db_pool environ_empty_marker secrets_example json_example fmt_example \<noteq>
     Inr \<lparr>conninfo = ''host=db.internal dbname=glog user=app password=pw port=5432'',
          min_size = 1, max_size = 10\<rparr>"
  by (simp add: get_db_pool_def environ_get_def truthy_def environ_empty_marker_def
        secrets_example_def)

text \<open>
  Claim C7, amended. When the marker is unset or empty, the connection string is built
  from \<open>DB_HOST\<close>, \<open>DB_NAME\<close>, \<open>DB_USER\<close>, \<open>DB_PASSWORD\<close>, \<open>DB_PORT\<close> with the
  defaults \<open>localhost\<close>, \<open>postgres\<close>, \<open>postgres\<close>, \<open>postgres\<close>, \<open>5432\<close>. When the marker
  is set to a non-empty text, it is built from the fields \<open>host\<close>, \<open>dbname\<close>,
  \<open>username\<close>, \<open>password\<close> of the fetched secret, with port \<open>5432\<close> when the secret
  has no \<open>port\<close>. The pool is sized 1 to 10 in both cases.
\<close>

theorem get_db_pool_resolution:
  "(environ ''AWS_EXECUTION_ENV'' = None \<or> environ ''AWS_EXECUTION_ENV'' = Some [] \<longrightarrow>
      get_db_pool environ get_secret_value json_loads fmt =
        Inr \<lparr>conninfo =
               ''host='' @ (case environ ''DB_HOST'' of None \<Rightarrow> ''localhost'' | Some v \<Rightarrow> v)
               @ '' dbname='' @ (case environ ''DB_NAME'' of None \<Rightarrow> ''postgres'' | Some v \<Rightarrow> v)
               @ '' user='' @ (case environ ''DB_USER'' of None \<Rightarrow> ''postgres'' | Some v \<Rightarrow> v)
               @ '' password=''
               @ (case environ ''DB_PASSWORD'' of None \<Rightarrow> ''postgres'' | Some v \<Rightarrow> v)
               @ '' port='' @ (case environ ''DB_PORT'' of None \<Rightarrow> ''5432'' | Some v \<Rightarrow> v),
             min_size = 1, max_size = 10\<rparr>) \<and>
   (environ ''AWS_EXECUTION_ENV'' = Some marker \<and> marker \<noteq> [] \<and>
    get_secret_value (case environ ''AWS_REGION'' of None \<Rightarrow> ''us-east-1'' | Some v \<Rightarrow> v)
      (environ ''DB_SECRET_NAME'') = Some secret_string \<and>
    json_loads secret_string = Some db_credentials \<and>
    db_credentials ''host'' = Some h \<and> db_credentials ''dbname'' = Some n \<and>
    db_credentials ''username'' = Some u \<and> db_credentials ''password'' = Some p \<longrightarrow>
      get_db_pool environ get_secret_value json_loads fmt =
        Inr \<lparr>conninfo =
               ''host='' @ fmt h @ '' dbname='' @ fmt n @ '' user='' @ fmt u
               @ '' password='' @ fmt p @ '' port=''
               @ (case db_credentials ''port'' of None \<Rightarrow> ''5432'' | Some q \<Rightarrow> fmt q),
             min_size = 1, max_size = 10\<rparr>)"
proof (intro conjI impI)
  assume "environ ''AWS_EXECUTION_ENV'' = None \<or> environ ''AWS_EXECUTION_ENV'' = Some []"
  then have "\<not> truthy (environ ''AWS_EXECUTION_ENV'')"
    by (auto simp add: truthy_def)
  then show "get_db_pool environ get_secret_value json_loads fmt =
        Inr \<lparr>conninfo =
               ''host='' @ (case environ ''DB_HOST'' of None \<Rightarrow> ''localhost'' | Some v \<Rightarrow> v)
               @ '' dbname='' @ (case environ ''DB_NAME'' of None \<Rightarrow> ''postgres'' | Some v \<Rightarrow> v)
               @ '' user='' @ (case environ ''DB_USER'' of None \<Rightarrow> ''postgres'' | Some v \<Rightarrow> v)
               @ '' password=''
               @ (case environ ''DB_PASSWORD'' of None \<Rightarrow> ''postgres'' | Some v \<Rightarrow> v)
               @ '' port='' @ (case environ ''DB_PORT'' of None \<Rightarrow> ''5432'' | Some v \<Rightarrow> v),
             min_size = 1, max_size = 10\<rparr>"
    by (simp add: get_db_pool_def environ_get_def)
next
  assume a: "environ ''AWS_EXECUTION_ENV'' = Some marker \<and> marker \<noteq> [] \<and>
    get_secret_value (case environ ''AWS_REGION'' of None \<Rightarrow> ''us-east-1'' | Some v \<Rightarrow> v)
      (environ ''DB_SECRET_NAME'') = Some secret_string \<and>
    json_loads secret_string = Some db_credentials \<and>
    db_credentials ''host'' = Some h \<and> db_credentials ''dbname'' = Some n \<and>
    db_credentials ''username'' = Some u \<and> db_credentials ''password'' = Some p"
  then have "truthy (environ ''AWS_EXECUTION_ENV'')"
    by (simp add: truthy_def)
  with a show "get_db_pool environ get_secret_value json_loads fmt =
        Inr \<lparr>conninfo =
               ''host='' @ fmt h @ '' dbname='' @ fmt n @ '' user='' @ fmt u
               @ '' password='' @ fmt p @ '' port=''
               @ (case db_credentials ''port'' of None \<Rightarrow> ''5432'' | Some q \<Rightarrow> fmt q),
             min_size = 1, max_size = 10\<rparr>"
    by (simp add: get_db_pool_def environ_get_def)
qed

lemma secret_example:
  "secrets_example ''us-east-1'' (Some ''prod/db'') = Some ''SECRET''"
  "json_example ''SECRET'' =
     Some [''host'' \<mapsto> ''db.internal'', ''dbname'' \<mapsto> ''glog'',
           ''username'' \<mapsto> ''app'', ''password'' \<mapsto> ''pw'']"
  by (simp_all add: secrets_example_def json_example_def)

theorem get_db_pool_resolution_witness:
  "environ_local ''AWS_EXECUTION_ENV'' = None \<and>
   get_db_pool environ_local secrets_example json_example fmt_example =
     Inr \<lparr>conninfo = ''host=127.0.0.1 dbname=postgres user=postgres password=postgres port=5433'',
          min_size = 1, max_size = 10\<rparr> \<and>
   environ_lambda ''AWS_EXECUTION_ENV'' = Some ''AWS_Lambda_python3.9'' \<and>
   get_db_pool environ_lambda secrets_example json_example fmt_example =
     Inr \<lparr>conninfo = ''host=db.internal dbname=glog user=app password=pw port=5432'',
          min_size = 1, max_size = 10\<rparr>"
proof -
  let ?c = "[''host'' \<mapsto> ''db.internal'', ''dbname'' \<mapsto> ''glog'',
             ''username'' \<mapsto> ''app'', ''password'' \<mapsto> ''pw'']"
  have unset: "environ_local ''AWS_EXECUTION_ENV'' = None"
    by (simp add: environ_local_def)
  have set: "environ_lambda ''AWS_EXECUTION_ENV'' = Some ''AWS_Lambda_python3.9''"
    by (simp add: environ_lambda_def)
  have fetch: "secrets_example
      (case environ_lambda ''AWS_REGION'' of None \<Rightarrow> ''us-east-1'' | Some v \<Rightarrow> v)
      (environ_lambda ''DB_SECRET_NAME'') = Some ''SECRET''"
    by (simp add: environ_lambda_def secrets_example_def)
  have fields: "?c ''host'' = Some ''db.internal''" "?c ''dbname'' = Some ''glog''"
    "?c ''username'' = Some ''app''" "?c ''password'' = Some ''pw''" "?c ''port'' = None"
    by simp_all
  have local: "get_db_pool environ_local secrets_example json_example fmt_example =
     Inr \<lparr>conninfo = ''host=127.0.0.1 dbname=postgres user=postgres password=postgres port=5433'',
          min_size = 1, max_size = 10\<rparr>"
    using get_db_pool_resolution [of environ_local secrets_example json_example fmt_example] unset
    by (simp add: environ_local_def)
  have lam: "get_db_pool environ_lambda secrets_example json_example fmt_example =
     Inr \<lparr>conninfo = ''host=db.internal dbname=glog user=app password=pw port=5432'',
          min_size = 1, max_size = 10\<rparr>"
    using get_db_pool_resolution [where environ = environ_lambda
        and marker = "''AWS_Lambda_python3.9''" and get_secret_value = secrets_example
        and secret_string = "''SECRET''" and json_loads = json_example and db_credentials = ?c
        and h = "''db.internal''" and n = "''glog''" and u = "''app''" and p = "''pw''"
        and fmt = fmt_example]
      set fetch secret_example(2) fields
    by (simp add: fmt_example_def)
  from unset local set lam show ?thesis by simp
qed

end
